theory Spec2Isabelle
  imports Complex_Main
begin

section \<open>Data model\<close>

text \<open>
  The three front-ends (\<^verbatim>\<open>spillway_discharge.py\<close>, \<^verbatim>\<open>spillway_discharge_old.py\<close> and the
  copy \<^verbatim>\<open>spillway_discharge copy.py\<close>) read a table with the columns \<^verbatim>\<open>height\<close> and
  \<^verbatim>\<open>cfs\<close> into a pandas DataFrame. The frame is modelled as the list of its rows in file
  order; \<^verbatim>\<open>read_csv\<close> gives it the default index, so the label of a row is its position.

  Python floats are modelled as reals: rounding, infinities and NaN are outside the model.
\<close>

record row =
  height :: real
  cfs :: real

type_synonym dataframe = "row list"

text \<open>
  The exceptions the modelled code can raise: pandas' \<^verbatim>\<open>idxmin\<close> on an empty series
  (\<^verbatim>\<open>ValueError: attempt to get argmin of an empty sequence\<close>) and Python's division by zero.
\<close>

datatype error = ValueError | ZeroDivisionError

text \<open>The dictionary returned by \<^verbatim>\<open>calculate_discharge\<close>.\<close>

record calculation =
  timestamp :: string
  num_gates :: int
  duration :: real
  gate_height :: real
  cfs_value :: real
  discharge :: real
  exact_match :: bool

text \<open>The two entries of \<^verbatim>\<open>st.session_state\<close> that the handlers update.\<close>

record session_state =
  calculations :: "calculation list"
  total_discharge :: real

text \<open>\<^verbatim>\<open>initialize_session_state\<close>: an empty list and the total 0.0.\<close>

definition initialize_session_state :: session_state where
  "initialize_session_state = \<lparr>calculations = [], total_discharge = 0\<rparr>"

text \<open>\<^verbatim>\<open>create_sample_csv\<close>: the built-in table, two columns zipped into rows.\<close>

definition create_sample_csv :: dataframe where
  "create_sample_csv =
     map (\<lambda>(h, c). \<lparr>height = h, cfs = c\<rparr>)
       (zip [0.50, 1.00, 1.50, 2.00, 2.50, 3.00]
            [9000, 18000, 29000, 38000, 49000, 58000])"

section \<open>Lookup\<close>

text \<open>
  \<^verbatim>\<open>Series.idxmin\<close>: the label of the first occurrence of the minimum, found by a scan from
  the left that replaces the candidate only by a strictly smaller value; on an empty series
  it raises \<^verbatim>\<open>ValueError\<close>.
\<close>

fun argmin_from :: "nat \<Rightarrow> real \<Rightarrow> nat \<Rightarrow> real list \<Rightarrow> nat" where
  "argmin_from best bv i [] = best"
| "argmin_from best bv i (x # xs) =
     (if x < bv then argmin_from i x (Suc i) xs else argmin_from best bv (Suc i) xs)"

definition idxmin :: "real list \<Rightarrow> error + nat" where
  "idxmin xs = (case xs of [] \<Rightarrow> Inl ValueError | x # rest \<Rightarrow> Inr (argmin_from 0 x 1 rest))"

text \<open>\<^verbatim>\<open>(discharge_data['height'] - height).abs()\<close>\<close>

definition abs_diffs :: "real \<Rightarrow> dataframe \<Rightarrow> real list" where
  "abs_diffs h discharge_data = map (\<lambda>r. \<bar>height r - h\<bar>) discharge_data"

text \<open>
  \<^verbatim>\<open>get_cfs_for_height\<close> of \<^verbatim>\<open>spillway_discharge.py\<close>: the first row whose height equals the
  requested one, else the row at \<^verbatim>\<open>idxmin\<close> of the absolute differences.
\<close>

definition get_cfs_for_height :: "real \<Rightarrow> dataframe \<Rightarrow> error + (real \<times> bool)" where
  "get_cfs_for_height h discharge_data =
     (let exact = filter (\<lambda>r. height r = h) discharge_data in
      if exact \<noteq> [] then Inr (cfs (hd exact), True)
      else (case idxmin (abs_diffs h discharge_data) of
              Inl e \<Rightarrow> Inl e
            | Inr closest_idx \<Rightarrow> Inr (cfs (discharge_data ! closest_idx), False)))"

section \<open>The discharge formula\<close>

text \<open>Line 72 of \<^verbatim>\<open>spillway_discharge.py\<close>: the divisor is written \<^verbatim>\<open>(16 * 24)\<close>.\<close>

definition discharge_formula :: "int \<Rightarrow> real \<Rightarrow> real \<Rightarrow> real" where
  "discharge_formula g d c = (of_int g * d * c) / (16 * 24)"

text \<open>Line 53 of \<^verbatim>\<open>spillway_discharge_old.py\<close>: the divisor is written \<^verbatim>\<open>384\<close>.\<close>

definition spd_old :: "int \<Rightarrow> real \<Rightarrow> real \<Rightarrow> real" where
  "spd_old g d c = (of_int g * d * c) / 384"

text \<open>Line 51 of the copy: the divisor is written \<^verbatim>\<open>(16*24)\<close>.\<close>

definition spd_1 :: "int \<Rightarrow> real \<Rightarrow> real \<Rightarrow> real" where
  "spd_1 g d c = (of_int g * d * c) / (16 * 24)"

text \<open>
  \<^verbatim>\<open>calculate_discharge\<close>. The time stamp \<^verbatim>\<open>datetime.now()\<close> is a parameter. An exception of
  the lookup leaves the function before anything is computed.
\<close>

definition calculate_discharge ::
  "string \<Rightarrow> int \<Rightarrow> real \<Rightarrow> real \<Rightarrow> dataframe \<Rightarrow> error + calculation" where
  "calculate_discharge now g d h discharge_data =
     (case get_cfs_for_height h discharge_data of
        Inl e \<Rightarrow> Inl e
      | Inr (c, ex) \<Rightarrow>
          Inr \<lparr>timestamp = now, num_gates = g, duration = d, gate_height = h,
               cfs_value = c, discharge = discharge_formula g d c, exact_match = ex\<rparr>)"

section \<open>The session: calculate, clear, summary\<close>

text \<open>
  What Streamlit shows. An f-string is kept as its pieces: the literal text and the values
  interpolated into it (number formatting and the leading emoji are left out).
\<close>

datatype piece = Txt string | Num real

datatype message =
    Success "piece list"
  | Warning "piece list"
  | Text "piece list"
  | Exception error

text \<open>Lines 182 and 183: append the result, then add its discharge to the running total.\<close>

definition append_and_accumulate :: "calculation \<Rightarrow> session_state \<Rightarrow> session_state" where
  "append_and_accumulate result s =
     (let s1 = s\<lparr>calculations := calculations s @ [result]\<rparr>
      in s1\<lparr>total_discharge := total_discharge s1 + discharge result\<rparr>)"

text \<open>Lines 194 and 195: the handler of the clear button.\<close>

definition clear_all :: "session_state \<Rightarrow> session_state" where
  "clear_all s =
     (let s1 = s\<lparr>calculations := []\<rparr>
      in s1\<lparr>total_discharge := 0\<rparr>)"

text \<open>
  Lines 176 to 190: the handler of the calculate button. An exception ends the script run;
  the session keeps what had been stored before it was raised.
\<close>

definition on_calculate ::
  "string \<Rightarrow> int \<Rightarrow> real \<Rightarrow> real \<Rightarrow> dataframe \<Rightarrow> session_state
     \<Rightarrow> session_state \<times> message list" where
  "on_calculate now g d h discharge_data s =
     (case calculate_discharge now g d h discharge_data of
        Inl e \<Rightarrow> (s, [Exception e])
      | Inr result \<Rightarrow>
          (let s' = append_and_accumulate result s;
               completed = Success [Txt ''Calculation completed! Individual discharge: '',
                                    Num (discharge result)]
           in if \<not> exact_match result then
                (case idxmin (abs_diffs h discharge_data) of
                   Inl e \<Rightarrow> (s', [completed, Exception e])
                 | Inr i \<Rightarrow>
                     (let closest_height = height (discharge_data ! i)
                      in (s', [completed,
                               Warning [Txt ''Using closest available height: '',
                                        Num closest_height, Txt '' (CFS: '',
                                        Num (cfs_value result), Txt '')'']])))
              else (s', [completed])))"

text \<open>Python's \<^verbatim>\<open>/\<close> on floats raises on a zero divisor.\<close>

definition truediv :: "real \<Rightarrow> real \<Rightarrow> error + real" where
  "truediv a b = (if b = 0 then Inl ZeroDivisionError else Inr (a / b))"

text \<open>
  Lines 203 to 212: the three summary metrics (count, total, average), shown only when the
  list is not empty; otherwise the hint of line 234 is shown and nothing is computed.
\<close>

definition summarize :: "session_state \<Rightarrow> error + (nat \<times> real \<times> real) option" where
  "summarize s =
     (if length (calculations s) > 0 then
        (case truediv (total_discharge s) (real (length (calculations s))) of
           Inl e \<Rightarrow> Inl e
         | Inr avg_discharge \<Rightarrow>
             Inr (Some (length (calculations s), total_discharge s, avg_discharge)))
      else Inr None)"

text \<open>A run of the two state-changing operations, from the left.\<close>

datatype action = Append calculation | Clear

fun apply_action :: "session_state \<Rightarrow> action \<Rightarrow> session_state" where
  "apply_action s (Append result) = append_and_accumulate result s"
| "apply_action s Clear = clear_all s"

definition run :: "action list \<Rightarrow> session_state \<Rightarrow> session_state" where
  "run acts s = foldl apply_action s acts"

text \<open>A message names a value when the value is interpolated into its text.\<close>

fun pieces :: "message \<Rightarrow> piece list" where
  "pieces (Success ps) = ps"
| "pieces (Warning ps) = ps"
| "pieces (Text ps) = ps"
| "pieces (Exception e) = []"

definition names :: "message \<Rightarrow> real \<Rightarrow> bool" where
  "names m x = (Num x \<in> set (pieces m))"

text \<open>
  Lines 142 to 169: the three \<^verbatim>\<open>st.number_input\<close> widgets. A widget hands the script only a
  value between its \<^verbatim>\<open>min_value\<close> and its \<^verbatim>\<open>max_value\<close>.
\<close>

definition number_input :: "'a::linorder \<Rightarrow> 'a \<Rightarrow> 'a \<Rightarrow> bool" where
  "number_input min_value max_value v = (min_value \<le> v \<and> v \<le> max_value)"

definition widget_values :: "int \<Rightarrow> real \<Rightarrow> real \<Rightarrow> bool" where
  "widget_values g d h =
     (number_input 1 50 g \<and> number_input 0.1 1000.0 d \<and> number_input 0.1 10.0 h)"

text \<open>The invariant of the session: the running total is the sum over the stored entries.\<close>

definition total_is_sum :: "session_state \<Rightarrow> bool" where
  "total_is_sum s = (total_discharge s = sum_list (map discharge (calculations s)))"

section \<open>The two older variants\<close>

text \<open>
  \<^verbatim>\<open>spillway_discharge_old.py\<close>, lines 43 to 54, and the copy, lines 41 to 53: the rate is the
  second column of the first row with the selected height; without such a row the rate is
  set to 0 and the formula is applied all the same.
\<close>

definition lookup_old :: "real \<Rightarrow> dataframe \<Rightarrow> real \<times> message" where
  "lookup_old gh df =
     (let rate_data = filter (\<lambda>r. height r = gh) df in
      if rate_data \<noteq> [] then
        (let cfs_rate = cfs (hd rate_data)
         in (cfs_rate, Text [Txt ''The CFS rate for a gate height of '', Num gh,
                             Txt '' is '', Num cfs_rate, Txt '' CFS.'']))
      else (0, Text [Txt ''No data available for the selected gate height.'']))"

definition calculation_old :: "int \<Rightarrow> real \<Rightarrow> real \<Rightarrow> dataframe \<Rightarrow> real \<times> message list" where
  "calculation_old g d gh df =
     (let (cfs_rate, shown) = lookup_old gh df;
          spd = spd_old g d cfs_rate
      in (spd, [shown, Success [Txt ''SPD rate for Calculation: '', Num spd]]))"

definition calculation_copy :: "int \<Rightarrow> real \<Rightarrow> real \<Rightarrow> dataframe \<Rightarrow> real \<times> message list" where
  "calculation_copy g d gh df =
     (let (cfs_rate, shown) = lookup_old gh df;
          spd = spd_1 g d cfs_rate
      in (spd, [shown, Success [Txt ''SPD rate for entry 1: '', Num spd]]))"

section \<open>Theorems\<close>

subsection \<open>Auxiliary facts about the lookup\<close>

lemma argmin_from_inv:
  assumes "best < length pre" "bv = pre ! best" "\<forall>j<length pre. bv \<le> pre!j" "\<forall>j<best. bv < pre!j"
  shows "let k = argmin_from best bv (length pre) xs; ys = pre @ xs in k < length ys \<and> (\<forall>j<length ys. ys!k \<le> ys!j) \<and> (\<forall>j<k. ys!k < ys!j)"
  using assms
proof (induction xs arbitrary: pre best bv)
  case Nil
  then show ?case by simp
next
  case (Cons x xs)
  show ?case
  proof (cases "x < bv")
    case True
    have "let k = argmin_from (length pre) x (length (pre @ [x])) xs; ys = (pre @ [x]) @ xs in k < length ys \<and> (\<forall>j<length ys. ys!k \<le> ys!j) \<and> (\<forall>j<k. ys!k < ys!j)"
      apply (rule Cons.IH)
      using Cons.prems True by (auto simp: nth_append less_Suc_eq)
    then show ?thesis using True by simp
  next
    case False
    have "let k = argmin_from best bv (length (pre @ [x])) xs; ys = (pre @ [x]) @ xs in k < length ys \<and> (\<forall>j<length ys. ys!k \<le> ys!j) \<and> (\<forall>j<k. ys!k < ys!j)"
      apply (rule Cons.IH)
      using Cons.prems False by (auto simp: nth_append less_Suc_eq)
    then show ?thesis using False by simp
  qed
qed

lemma idxmin_first_minimum:
  assumes "xs \<noteq> []"
  shows "\<exists>k<length xs. idxmin xs = Inr k \<and> (\<forall>j<length xs. xs ! k \<le> xs ! j) \<and> (\<forall>j<k. xs ! k < xs ! j)"
proof -
  from assms obtain x rest where xs: "xs = x # rest" by (cases xs) auto
  have "let k = argmin_from 0 x (length [x]) rest; ys = [x] @ rest in k < length ys \<and> (\<forall>j<length ys. ys!k \<le> ys!j) \<and> (\<forall>j<k. ys!k < ys!j)"
    by (rule argmin_from_inv) auto
  then show ?thesis by (simp add: xs idxmin_def Let_def)
qed

lemma hd_filter_first:
  assumes "i < length xs" "P (xs ! i)" "\<forall>k<i. \<not> P (xs ! k)"
  shows "filter P xs \<noteq> [] \<and> hd (filter P xs) = xs ! i"
proof -
  have split: "xs = take i xs @ xs ! i # drop (Suc i) xs"
    using assms(1) by (rule id_take_nth_drop)
  have "filter P (take i xs) = []"
    using assms(1,3) by (auto simp: filter_empty_conv in_set_conv_nth)
  then have "filter P xs = xs ! i # filter P (drop (Suc i) xs)"
    using assms(2) by (subst split) simp
  then show ?thesis by simp
qed

lemma get_cfs_nearest:
  assumes "df \<noteq> []" "\<forall>r\<in>set df. height r \<noteq> h"
  shows "\<exists>i<length df. get_cfs_for_height h df = Inr (cfs (df ! i), False)
          \<and> idxmin (abs_diffs h df) = Inr i
          \<and> (\<forall>j<length df. \<bar>height (df ! i) - h\<bar> \<le> \<bar>height (df ! j) - h\<bar>)
          \<and> (\<forall>j<i. \<bar>height (df ! i) - h\<bar> < \<bar>height (df ! j) - h\<bar>)"
proof -
  have ne: "abs_diffs h df \<noteq> []" using assms(1) by (simp add: abs_diffs_def)
  have len: "length (abs_diffs h df) = length df" by (simp add: abs_diffs_def)
  from idxmin_first_minimum [OF ne] obtain k where k: "k < length df"
    "idxmin (abs_diffs h df) = Inr k"
    "\<forall>j<length df. abs_diffs h df ! k \<le> abs_diffs h df ! j"
    "\<forall>j<k. abs_diffs h df ! k < abs_diffs h df ! j"
    unfolding len by blast
  have nth: "\<And>j. j < length df \<Longrightarrow> abs_diffs h df ! j = \<bar>height (df ! j) - h\<bar>"
    by (simp add: abs_diffs_def)
  have noexact: "filter (\<lambda>r. height r = h) df = []"
    using assms(2) by (auto simp: filter_empty_conv)
  have "get_cfs_for_height h df = Inr (cfs (df ! k), False)"
    by (simp add: get_cfs_for_height_def noexact k(2))
  moreover have "\<forall>j<length df. \<bar>height (df ! k) - h\<bar> \<le> \<bar>height (df ! j) - h\<bar>"
    using k(1,3) nth by auto
  moreover have "\<forall>j<k. \<bar>height (df ! k) - h\<bar> < \<bar>height (df ! j) - h\<bar>"
    using k(1,4) nth by auto
  ultimately show ?thesis using k(1,2) by blast
qed

lemma get_cfs_nonempty:
  assumes "df \<noteq> []"
  shows "\<exists>c ex. get_cfs_for_height h df = Inr (c, ex)"
proof (cases "filter (\<lambda>r. height r = h) df = []")
  case True
  then have "\<forall>r\<in>set df. height r \<noteq> h" by (auto simp: filter_empty_conv)
  from get_cfs_nearest [OF assms this] show ?thesis by blast
next
  case False
  then show ?thesis by (auto simp: get_cfs_for_height_def)
qed

lemma sample_rows:
  "create_sample_csv = [\<lparr>height = 1/2, cfs = 9000\<rparr>, \<lparr>height = 1, cfs = 18000\<rparr>,
     \<lparr>height = 3/2, cfs = 29000\<rparr>, \<lparr>height = 2, cfs = 38000\<rparr>,
     \<lparr>height = 5/2, cfs = 49000\<rparr>, \<lparr>height = 3, cfs = 58000\<rparr>]"
  by (simp add: create_sample_csv_def)

subsection \<open>Auxiliary facts about the session and the older variants\<close>

lemma get_cfs_empty: "get_cfs_for_height h [] = Inl ValueError"
  by (simp add: get_cfs_for_height_def idxmin_def abs_diffs_def)

lemma lookup_old_no_row:
  assumes "\<forall>r\<in>set df. height r \<noteq> h"
  shows "lookup_old h df = (0, Text [Txt ''No data available for the selected gate height.''])"
proof -
  have "filter (\<lambda>r. height r = h) df = []"
    using assms by (auto simp: filter_empty_conv)
  then show ?thesis by (simp add: lookup_old_def)
qed

lemma on_calculate_appends:
  assumes "calculate_discharge now g d h df = Inr e"
  shows "fst (on_calculate now g d h df s) = append_and_accumulate e s"
  using assms by (simp add: on_calculate_def Let_def split: sum.splits)

lemma total_is_sum_apply_action:
  "total_is_sum s \<Longrightarrow> total_is_sum (apply_action s a)"
  by (cases a) (simp_all add: total_is_sum_def append_and_accumulate_def clear_all_def)

lemma total_is_sum_foldl:
  "total_is_sum s \<Longrightarrow> total_is_sum (foldl apply_action s acts)"
  by (induction acts arbitrary: s) (simp_all add: total_is_sum_apply_action)

subsection \<open>The claims\<close>

text \<open>
  Claim C1. For every gate count, duration and resolved rate, \<^verbatim>\<open>calculate_discharge\<close> returns an
  entry whose discharge is gate count times duration times rate, divided by 384; with 2
  gates, 3 hours and the rate 9000 the discharge is 140.625.
\<close>

theorem C1_formula:
  assumes "get_cfs_for_height h df = Inr (rate, ex)"
  shows "(\<exists>e. calculate_discharge now g d h df = Inr e \<and> cfs_value e = rate
            \<and> discharge e = (of_int g * d * rate) / 384)
         \<and> discharge_formula 2 3 9000 = 140.625"
  using assms by (simp add: calculate_discharge_def discharge_formula_def)

theorem C1_formula_witness:
  "get_cfs_for_height 0.5 create_sample_csv = Inr (9000, True)
   \<and> (\<exists>e. calculate_discharge ''2025-01-01 12:00:00'' 2 3 0.5 create_sample_csv = Inr e
          \<and> cfs_value e = 9000 \<and> discharge e = 140.625)"
proof -
  have a: "get_cfs_for_height 0.5 create_sample_csv = Inr (9000, True)"
    by (simp add: get_cfs_for_height_def sample_rows)
  from C1_formula [OF a, of "''2025-01-01 12:00:00''" 2 3] a show ?thesis by simp
qed

text \<open>
  Claim C2. On a table that is not empty and has no row of the requested height, the lookup
  returns, marked as not exact, the rate of a row whose height is nearest to the requested
  one, and of the first such row in table order; on the built-in table the height 1.75
  resolves to the rate 29000 (the row of height 1.50), not exact.
\<close>

theorem C2_nearest:
  assumes "df \<noteq> []" and "\<forall>r\<in>set df. height r \<noteq> h"
  shows "(\<exists>i<length df. get_cfs_for_height h df = Inr (cfs (df ! i), False)
          \<and> (\<forall>j<length df. \<bar>height (df ! i) - h\<bar> \<le> \<bar>height (df ! j) - h\<bar>)
          \<and> (\<forall>j<i. \<bar>height (df ! i) - h\<bar> < \<bar>height (df ! j) - h\<bar>))
        \<and> get_cfs_for_height 1.75 create_sample_csv = Inr (29000, False)"
proof
  from get_cfs_nearest [OF assms]
  show "\<exists>i<length df. get_cfs_for_height h df = Inr (cfs (df ! i), False)
          \<and> (\<forall>j<length df. \<bar>height (df ! i) - h\<bar> \<le> \<bar>height (df ! j) - h\<bar>)
          \<and> (\<forall>j<i. \<bar>height (df ! i) - h\<bar> < \<bar>height (df ! j) - h\<bar>)"
    by blast
  show "get_cfs_for_height 1.75 create_sample_csv = Inr (29000, False)"
    by (simp add: get_cfs_for_height_def sample_rows idxmin_def abs_diffs_def)
qed

theorem C2_nearest_witness:
  "create_sample_csv \<noteq> [] \<and> 1.75 \<notin> set (map height create_sample_csv)
   \<and> (\<exists>i<length create_sample_csv.
         get_cfs_for_height 1.75 create_sample_csv = Inr (cfs (create_sample_csv ! i), False)
         \<and> (\<forall>j<length create_sample_csv.
               \<bar>height (create_sample_csv ! i) - 1.75\<bar> \<le> \<bar>height (create_sample_csv ! j) - 1.75\<bar>)
         \<and> (\<forall>j<i. \<bar>height (create_sample_csv ! i) - 1.75\<bar> < \<bar>height (create_sample_csv ! j) - 1.75\<bar>))"
proof -
  have a: "create_sample_csv \<noteq> []" by (simp add: sample_rows)
  have b: "\<forall>r\<in>set create_sample_csv. height r \<noteq> 1.75" by (simp add: sample_rows)
  have c: "1.75 \<notin> set (map height create_sample_csv)" by (simp add: sample_rows)
  from C2_nearest [OF a b] a c show ?thesis by blast
qed

text \<open>
  Claim C3, as stated, fails: on a table without a row of the selected height (the empty
  table, or the built-in table at height 10) the old variant and the copy do not fail; they set
  the rate to 0 and report a discharge of 0 in a success message.
\<close>

theorem C3_counterexample:
  "calculation_old 1 1 0.5 [] =
     (0, [Text [Txt ''No data available for the selected gate height.''],
          Success [Txt ''SPD rate for Calculation: '', Num 0]])
   \<and> calculation_copy 1 1 10.0 create_sample_csv =
     (0, [Text [Txt ''No data available for the selected gate height.''],
          Success [Txt ''SPD rate for entry 1: '', Num 0]])"
  by (simp add: calculation_old_def calculation_copy_def lookup_old_def spd_old_def spd_1_def
      sample_rows)

text \<open>
  Claim C3, amended. In \<^verbatim>\<open>spillway_discharge.py\<close> every lookup against an empty table fails
  (the \<^verbatim>\<open>ValueError\<close> of \<^verbatim>\<open>idxmin\<close>), so does \<^verbatim>\<open>calculate_discharge\<close>, and the calculate handler
  shows the exception and leaves the session as it was: no rate 0 is substituted and no
  discharge is computed. The old variant and the copy do not fail: for a height without a row
  in the table they set the rate to 0, show "No data available for the selected gate height."
  and report the discharge 0.
\<close>

theorem C3_empty_table:
  "get_cfs_for_height h [] = Inl ValueError
   \<and> calculate_discharge now g d h [] = Inl ValueError
   \<and> on_calculate now g d h [] s = (s, [Exception ValueError])
   \<and> ((\<forall>r\<in>set df. height r \<noteq> h) \<longrightarrow>
        calculation_old g d h df =
          (0, [Text [Txt ''No data available for the selected gate height.''],
               Success [Txt ''SPD rate for Calculation: '', Num 0]])
        \<and> calculation_copy g d h df =
          (0, [Text [Txt ''No data available for the selected gate height.''],
               Success [Txt ''SPD rate for entry 1: '', Num 0]]))"
  by (simp add: get_cfs_empty calculate_discharge_def on_calculate_def lookup_old_no_row
      calculation_old_def calculation_copy_def spd_old_def spd_1_def)

theorem C3_empty_table_witness:
  "10.0 \<notin> set (map height create_sample_csv)
   \<and> on_calculate ''2025-01-01 12:00:00'' 1 1 10.0 [] initialize_session_state
       = (initialize_session_state, [Exception ValueError])
   \<and> calculation_old 1 1 10.0 create_sample_csv =
          (0, [Text [Txt ''No data available for the selected gate height.''],
               Success [Txt ''SPD rate for Calculation: '', Num 0]])"
proof -
  have a: "\<forall>r\<in>set create_sample_csv. height r \<noteq> 10.0" by (simp add: sample_rows)
  from C3_empty_table [of "10.0" "''2025-01-01 12:00:00''" 1 1 initialize_session_state
      create_sample_csv] a
  have "on_calculate ''2025-01-01 12:00:00'' 1 1 10.0 [] initialize_session_state
       = (initialize_session_state, [Exception ValueError])
   \<and> calculation_old 1 1 10.0 create_sample_csv =
          (0, [Text [Txt ''No data available for the selected gate height.''],
               Success [Txt ''SPD rate for Calculation: '', Num 0]])" by blast
  moreover have "10.0 \<notin> set (map height create_sample_csv)" by (simp add: sample_rows)
  ultimately show ?thesis by blast
qed

text \<open>
  Claim C4, as stated, fails: with the gate count 0 the calculate handler does not fail; it
  stores an entry of discharge 0 and the count goes from 0 to 1.
\<close>

theorem C4_counterexample:
  "on_calculate ''t'' 0 1 0.5 create_sample_csv initialize_session_state =
     (\<lparr>calculations = [\<lparr>timestamp = ''t'', num_gates = 0, duration = 1, gate_height = 0.5,
                         cfs_value = 9000, discharge = 0, exact_match = True\<rparr>],
       total_discharge = 0\<rparr>,
      [Success [Txt ''Calculation completed! Individual discharge: '', Num 0]])"
  by (simp add: on_calculate_def calculate_discharge_def get_cfs_for_height_def sample_rows
      discharge_formula_def append_and_accumulate_def initialize_session_state_def)

text \<open>
  Claim C4, amended. \<^verbatim>\<open>calculate_discharge\<close> checks neither the gate count nor the duration:
  for every gate count and duration, also a gate count below 1 or a duration not above 0, on
  a table that is not empty it returns an entry with discharge = gate count times duration
  times rate, divided by 384, and the calculate handler appends that entry and adds its
  discharge to the total. Such values are kept out by the input widgets only, whose bounds
  (gates from 1 to 50, duration from 0.1 to 1000) admit no gate count below 1 and no
  duration at or below 0.
\<close>

theorem C4_no_validation:
  assumes "df \<noteq> []"
  shows "(\<exists>e. calculate_discharge now g d h df = Inr e
            \<and> num_gates e = g \<and> duration e = d
            \<and> discharge e = (of_int g * d * cfs_value e) / 384
            \<and> fst (on_calculate now g d h df s) = append_and_accumulate e s
            \<and> calculations (fst (on_calculate now g d h df s)) = calculations s @ [e]
            \<and> total_discharge (fst (on_calculate now g d h df s))
                = total_discharge s + discharge e)
         \<and> (widget_values g d h \<longrightarrow> 1 \<le> g \<and> 0 < d)"
proof
  from get_cfs_nonempty [OF assms] obtain c ex where
    c: "get_cfs_for_height h df = Inr (c, ex)" by blast
  define e where "e = \<lparr>timestamp = now, num_gates = g, duration = d, gate_height = h,
               cfs_value = c, discharge = discharge_formula g d c, exact_match = ex\<rparr>"
  have calc: "calculate_discharge now g d h df = Inr e"
    by (simp add: calculate_discharge_def c e_def)
  have app: "fst (on_calculate now g d h df s) = append_and_accumulate e s"
    using calc by (rule on_calculate_appends)
  have "discharge e = (of_int g * d * cfs_value e) / 384"
    by (simp add: e_def discharge_formula_def)
  moreover have "num_gates e = g" "duration e = d" by (simp_all add: e_def)
  moreover have "calculations (append_and_accumulate e s) = calculations s @ [e]"
    by (simp add: append_and_accumulate_def)
  moreover have "total_discharge (append_and_accumulate e s) = total_discharge s + discharge e"
    by (simp add: append_and_accumulate_def)
  ultimately show "\<exists>e. calculate_discharge now g d h df = Inr e
            \<and> num_gates e = g \<and> duration e = d
            \<and> discharge e = (of_int g * d * cfs_value e) / 384
            \<and> fst (on_calculate now g d h df s) = append_and_accumulate e s
            \<and> calculations (fst (on_calculate now g d h df s)) = calculations s @ [e]
            \<and> total_discharge (fst (on_calculate now g d h df s))
                = total_discharge s + discharge e"
    using calc app by auto
  show "widget_values g d h \<longrightarrow> 1 \<le> g \<and> 0 < d"
    by (simp add: widget_values_def number_input_def)
qed

theorem C4_no_validation_witness:
  "create_sample_csv \<noteq> [] \<and> \<not> widget_values 0 (-1) 0.5
   \<and> (\<exists>e. calculate_discharge ''t'' 0 (-1) 0.5 create_sample_csv = Inr e
          \<and> num_gates e = 0 \<and> duration e = -1
          \<and> calculations (fst (on_calculate ''t'' 0 (-1) 0.5 create_sample_csv
                initialize_session_state)) = [e])
   \<and> widget_values 1 0.1 0.5"
proof -
  have a: "create_sample_csv \<noteq> []" by (simp add: sample_rows)
  have b: "\<not> widget_values 0 (-1) 0.5" "widget_values 1 0.1 0.5"
    by (simp_all add: widget_values_def number_input_def)
  from C4_no_validation [OF a, of "''t''" 0 "-1" "0.5" initialize_session_state]
  have "\<exists>e. calculate_discharge ''t'' 0 (-1) 0.5 create_sample_csv = Inr e
          \<and> num_gates e = 0 \<and> duration e = -1
          \<and> calculations (fst (on_calculate ''t'' 0 (-1) 0.5 create_sample_csv
                initialize_session_state)) = [e]"
    by (auto simp: initialize_session_state_def)
  with a b show ?thesis by blast
qed

text \<open>
  Claim C5. After every sequence of append and clear operations from the initial session,
  the running total equals the sum of the discharges of the stored entries; three appended
  entries with the discharges 10, 20 and 30 give the count 3, the total 60 and the average 20.
\<close>

theorem C5_total_is_sum:
  "total_discharge (run acts initialize_session_state)
     = sum_list (map discharge (calculations (run acts initialize_session_state)))
   \<and> summarize (run [Append (e1\<lparr>discharge := 10\<rparr>), Append (e2\<lparr>discharge := 20\<rparr>),
                      Append (e3\<lparr>discharge := 30\<rparr>)] initialize_session_state)
       = Inr (Some (3, 60, 20))"
proof
  have "total_is_sum initialize_session_state"
    by (simp add: total_is_sum_def initialize_session_state_def)
  then have "total_is_sum (run acts initialize_session_state)"
    unfolding run_def by (rule total_is_sum_foldl)
  then show "total_discharge (run acts initialize_session_state)
     = sum_list (map discharge (calculations (run acts initialize_session_state)))"
    by (simp add: total_is_sum_def)
  show "summarize (run [Append (e1\<lparr>discharge := 10\<rparr>), Append (e2\<lparr>discharge := 20\<rparr>),
                      Append (e3\<lparr>discharge := 30\<rparr>)] initialize_session_state)
       = Inr (Some (3, 60, 20))"
    by (simp add: run_def append_and_accumulate_def initialize_session_state_def
        summarize_def truediv_def)
qed

text \<open>
  Claim C6. Whatever the session was, after the clear handler the list of entries is empty,
  the count is 0 and the total is 0: the session is the initial one, and no summary is shown.
\<close>

theorem C6_clear_all:
  "calculations (clear_all s) = []
   \<and> length (calculations (clear_all s)) = 0
   \<and> total_discharge (clear_all s) = 0
   \<and> clear_all s = initialize_session_state
   \<and> summarize (clear_all s) = Inr None"
  by (simp add: clear_all_def initialize_session_state_def summarize_def)

text \<open>
  Claim C7. The summary gives the average as total divided by count when the count is
  positive; when the count is 0 no summary is produced, and in no case is a division by zero
  raised.
\<close>

theorem C7_summarize:
  "(0 < length (calculations s) \<longrightarrow>
      summarize s = Inr (Some (length (calculations s), total_discharge s,
                               total_discharge s / real (length (calculations s)))))
   \<and> (length (calculations s) = 0 \<longrightarrow> summarize s = Inr None)
   \<and> summarize s \<noteq> Inl ZeroDivisionError"
  by (simp add: summarize_def truediv_def)

theorem C7_summarize_witness:
  "0 < length (calculations (run [Append \<lparr>timestamp = ''t'', num_gates = 2, duration = 3,
        gate_height = 0.5, cfs_value = 9000, discharge = 140.625, exact_match = True\<rparr>]
        initialize_session_state))
   \<and> summarize (run [Append \<lparr>timestamp = ''t'', num_gates = 2, duration = 3,
        gate_height = 0.5, cfs_value = 9000, discharge = 140.625, exact_match = True\<rparr>]
        initialize_session_state) = Inr (Some (1, 140.625, 140.625))
   \<and> length (calculations initialize_session_state) = 0
   \<and> summarize initialize_session_state = Inr None"
proof -
  let ?s = "run [Append \<lparr>timestamp = ''t'', num_gates = 2, duration = 3,
        gate_height = 0.5, cfs_value = 9000, discharge = 140.625, exact_match = True\<rparr>]
        initialize_session_state"
  have a: "0 < length (calculations ?s)"
    by (simp add: run_def append_and_accumulate_def)
  have b: "length (calculations initialize_session_state) = 0"
    by (simp add: initialize_session_state_def)
  have c: "length (calculations ?s) = 1" "total_discharge ?s = 140.625"
    by (simp_all add: run_def append_and_accumulate_def initialize_session_state_def)
  from C7_summarize [of ?s] a c
  have "summarize ?s = Inr (Some (1, 140.625, 140.625))" by simp
  moreover from C7_summarize [of initialize_session_state] b
  have "summarize initialize_session_state = Inr None" by blast
  ultimately show ?thesis using a b by blast
qed

text \<open>
  Claim C8, as stated, fails: for the requested height 1.75 on the built-in table the warning
  names the height used (1.5) and its rate (29000); the requested height 1.75 is not part of it.
\<close>

theorem C8_counterexample:
  "snd (on_calculate ''t'' 1 1 1.75 create_sample_csv initialize_session_state) =
     [Success [Txt ''Calculation completed! Individual discharge: '', Num (3625 / 48)],
      Warning [Txt ''Using closest available height: '', Num 1.5, Txt '' (CFS: '',
               Num 29000, Txt '')'']]
   \<and> \<not> names (last (snd (on_calculate ''t'' 1 1 1.75 create_sample_csv
                  initialize_session_state))) 1.75"
  by (simp add: on_calculate_def calculate_discharge_def get_cfs_for_height_def sample_rows
      idxmin_def abs_diffs_def discharge_formula_def names_def)

text \<open>
  Claim C8, amended. For every computation on a table that is not empty and has no row of the
  requested height, the calculate handler shows, after the success message with the
  discharge, a warning that names the height actually used and the rate taken from that row
  (and nothing else).
\<close>

theorem C8_warning:
  assumes "df \<noteq> []" and "\<forall>r\<in>set df. height r \<noteq> h"
  shows "\<exists>i<length df.
           get_cfs_for_height h df = Inr (cfs (df ! i), False)
           \<and> snd (on_calculate now g d h df s) =
               [Success [Txt ''Calculation completed! Individual discharge: '',
                         Num (discharge_formula g d (cfs (df ! i)))],
                Warning [Txt ''Using closest available height: '', Num (height (df ! i)),
                         Txt '' (CFS: '', Num (cfs (df ! i)), Txt '')'']]
           \<and> names (last (snd (on_calculate now g d h df s))) (height (df ! i))
           \<and> names (last (snd (on_calculate now g d h df s))) (cfs (df ! i))"
proof -
  from get_cfs_nearest [OF assms] obtain i where i: "i < length df"
    "get_cfs_for_height h df = Inr (cfs (df ! i), False)"
    "idxmin (abs_diffs h df) = Inr i" by blast
  have msgs: "snd (on_calculate now g d h df s) =
               [Success [Txt ''Calculation completed! Individual discharge: '',
                         Num (discharge_formula g d (cfs (df ! i)))],
                Warning [Txt ''Using closest available height: '', Num (height (df ! i)),
                         Txt '' (CFS: '', Num (cfs (df ! i)), Txt '')'']]"
    by (simp add: on_calculate_def calculate_discharge_def i(2,3))
  have "names (last (snd (on_calculate now g d h df s))) (height (df ! i))"
    "names (last (snd (on_calculate now g d h df s))) (cfs (df ! i))"
    by (simp_all add: msgs names_def)
  with i(1,2) msgs show ?thesis by blast
qed

theorem C8_warning_witness:
  "create_sample_csv \<noteq> [] \<and> 1.75 \<notin> set (map height create_sample_csv)
   \<and> (\<exists>i<length create_sample_csv.
         get_cfs_for_height 1.75 create_sample_csv = Inr (cfs (create_sample_csv ! i), False)
         \<and> names (last (snd (on_calculate ''t'' 1 1 1.75 create_sample_csv
                  initialize_session_state))) (height (create_sample_csv ! i)))"
proof -
  have a: "create_sample_csv \<noteq> []" by (simp add: sample_rows)
  have b: "\<forall>r\<in>set create_sample_csv. height r \<noteq> 1.75" by (simp add: sample_rows)
  have c: "1.75 \<notin> set (map height create_sample_csv)" by (simp add: sample_rows)
  from C8_warning [OF a b, of "''t''" 1 1 initialize_session_state] a c
  show ?thesis by blast
qed

text \<open>
  Claim C9. For every gate count, duration and rate the three variants compute the same
  discharge: dividing by \<open>16 * 24\<close> (main variant and the copy) is dividing by \<open>384\<close>
  (old variant), so the constant does not vary between the code paths.
\<close>

theorem C9_same_constant:
  "discharge_formula g d c = spd_old g d c \<and> spd_1 g d c = spd_old g d c
   \<and> discharge_formula g d c = (of_int g * d * c) / 384"
  by (simp add: discharge_formula_def spd_old_def spd_1_def)

text \<open>
  Claim C10. When two or more rows of the table have the same height, resolving that height
  returns the rate of the first of them in table order, marked as exact; the lookup of the
  old variant returns the same rate.
\<close>

theorem C10_first_wins:
  assumes "i < j" and "j < length df"
    and "height (df ! i) = h" and "height (df ! j) = h"
    and "\<forall>k<i. height (df ! k) \<noteq> h"
  shows "get_cfs_for_height h df = Inr (cfs (df ! i), True)
         \<and> fst (lookup_old h df) = cfs (df ! i)"
proof -
  have "i < length df" using assms(1,2) by simp
  from hd_filter_first [of i df "\<lambda>r. height r = h", OF this] assms(3,5)
  have "filter (\<lambda>r. height r = h) df \<noteq> []" "hd (filter (\<lambda>r. height r = h) df) = df ! i"
    by auto
  then show ?thesis by (simp add: get_cfs_for_height_def lookup_old_def Let_def)
qed

theorem C10_first_wins_witness:
  "get_cfs_for_height 1.5 [\<lparr>height = 1.0, cfs = 18000\<rparr>, \<lparr>height = 1.5, cfs = 29000\<rparr>,
                           \<lparr>height = 1.5, cfs = 31000\<rparr>] = Inr (29000, True)
   \<and> fst (lookup_old 1.5 [\<lparr>height = 1.0, cfs = 18000\<rparr>, \<lparr>height = 1.5, cfs = 29000\<rparr>,
                           \<lparr>height = 1.5, cfs = 31000\<rparr>]) = 29000"
  using C10_first_wins [of 1 2 "[\<lparr>height = 1.0, cfs = 18000\<rparr>, \<lparr>height = 1.5, cfs = 29000\<rparr>,
                           \<lparr>height = 1.5, cfs = 31000\<rparr>]" "1.5"]
  by (simp add: less_Suc_eq)

end
